theory Spec2Isabelle
  imports Complex_Main "HOL-Library.AList"
begin

section \<open>Data model\<close>

text \<open>
  Every JavaScript object of the scene is identified with the key under which the board's
  \<^verbatim>\<open>objects\<close> table holds it, so a reference to an element (\<^verbatim>\<open>this.p1\<close>, an entry of
  \<^verbatim>\<open>this.descendants\<close>) is that key, and all aliases of one element read and write the
  same entry of the table. A reference that is \<^verbatim>\<open>undefined\<close> is \<open>None\<close>.
\<close>

type_synonym ident = string

text \<open>
  The \<^verbatim>\<open>JXG.OBJECT_TYPE_*\<close> constants are declared outside \<^verbatim>\<open>Intersection.js\<close>; the
  source names the line, arrow, circle, arc and intersection types, the remaining
  constructors stand for the other element types of the scene.
\<close>

datatype object_type =
    OBJECT_TYPE_ARC
  | OBJECT_TYPE_ARROW
  | OBJECT_TYPE_CIRCLE
  | OBJECT_TYPE_LINE
  | OBJECT_TYPE_POINT
  | OBJECT_TYPE_POLYGON
  | OBJECT_TYPE_TEXT
  | OBJECT_TYPE_INTERSECTION

text \<open>
  The constructor assigns \<^verbatim>\<open>update\<close>, \<^verbatim>\<open>hideElement\<close>, \<^verbatim>\<open>showElement\<close>, \<^verbatim>\<open>hideChild\<close> and
  \<^verbatim>\<open>showChild\<close> per instance, one set of closures per branch; an instance that left the
  constructor before any branch keeps the methods of the prototype. The field
  \<open>methods\<close> records which set an instance carries.
\<close>

datatype methods = Prototype | LineLine | CircleCircle | CircleLine

datatype error = TypeError    \<comment> \<open>a property read or written on \<^verbatim>\<open>undefined\<close>\<close>

record element =
  ident :: ident                           \<comment> \<open>\<^verbatim>\<open>id\<close>\<close>
  name :: string
  otype :: object_type                     \<comment> \<open>\<^verbatim>\<open>type\<close>\<close>
  visible :: bool                          \<comment> \<open>\<^verbatim>\<open>visProp['visible']\<close>\<close>
  rendered :: bool                         \<comment> \<open>whether the renderer currently displays the element\<close>
  notExistingParents :: "ident set"        \<comment> \<open>the keys of \<^verbatim>\<open>notExistingParents\<close>\<close>
  descendants :: "ident list"              \<comment> \<open>the keys of \<^verbatim>\<open>descendants\<close>, in enumeration order\<close>
  coords :: "real list option"
  fixed :: bool
  labelShow :: bool                        \<comment> \<open>\<^verbatim>\<open>label.show\<close>\<close>
  real_flag :: bool                        \<comment> \<open>\<^verbatim>\<open>real\<close>\<close>
  needsUpdate :: bool
  intersect1 :: "ident option"
  intersect2 :: "ident option"
  p :: "ident option"
  p1 :: "ident option"
  p2 :: "ident option"
  methods :: methods

record board =
  objects :: "(ident \<times> element) list"     \<comment> \<open>\<^verbatim>\<open>board.objects\<close>, in enumeration order\<close>

definition lookup :: "board \<Rightarrow> ident \<Rightarrow> element option" where
  "lookup b k = map_of (objects b) k"

definition modify :: "ident \<Rightarrow> (element \<Rightarrow> element) \<Rightarrow> board \<Rightarrow> board" where
  \<comment> \<open>a write to fields of the element referenced by \<open>k\<close>\<close>
  "modify k f b = b\<lparr>objects := AList.map_entry k f (objects b)\<rparr>"

definition register :: "ident \<Rightarrow> element \<Rightarrow> board \<Rightarrow> board" where
  \<comment> \<open>\<^verbatim>\<open>board.objects[k] = e\<close>\<close>
  "register k e b = b\<lparr>objects := AList.update k e (objects b)\<rparr>"

text \<open>
  The solver \<^verbatim>\<open>board.algebra\<close> is a collaborator outside \<^verbatim>\<open>Intersection.js\<close> and a
  parameter of the model. \<^verbatim>\<open>intersectLineLine\<close> returns a coordinates object, given here by
  its \<^verbatim>\<open>usrCoords\<close>; the two circle solvers return an array whose slot 0 is the reported
  count and whose slots 1 and 2 are coordinates objects or \<^verbatim>\<open>undefined\<close>.
\<close>

record algebra =
  intersectLineLine :: "board \<Rightarrow> ident option \<Rightarrow> ident option \<Rightarrow> real list"
  intersectCircleCircle ::
    "board \<Rightarrow> ident option \<Rightarrow> ident option \<Rightarrow> nat \<times> real list option \<times> real list option"
  intersectCircleLine ::
    "board \<Rightarrow> ident option \<Rightarrow> ident option \<Rightarrow> nat \<times> real list option \<times> real list option"

section \<open>Collaborators of the scene graph\<close>

definition element_hideElement :: "element \<Rightarrow> element" where
  \<comment> \<open>Modelled from the spec: \<^verbatim>\<open>hideElement\<close> of an element that is not an intersection
      (\<^verbatim>\<open>JXG.Point\<close>, \<^verbatim>\<open>JXG.GeometryElement\<close>) is missing from the sources. The hide operation
      suppresses the rendered state and clears the visible flag, which is why
      \<^verbatim>\<open>hideChild\<close> sets the flag again after calling it.\<close>
  "element_hideElement e = e\<lparr>visible := False, rendered := False\<rparr>"

definition element_showElement :: "element \<Rightarrow> element" where
  \<comment> \<open>Modelled from the spec: \<^verbatim>\<open>showElement\<close> of an element that is not an intersection is
      missing from the sources. The show operation displays the element and sets its
      visible flag.\<close>
  "element_showElement e = e\<lparr>visible := True, rendered := True\<rparr>"

definition Point :: "board \<Rightarrow> real list \<Rightarrow> ident \<Rightarrow> string \<Rightarrow> bool \<Rightarrow> board" where
  \<comment> \<open>Modelled from the spec: the constructor \<^verbatim>\<open>JXG.Point\<close> is missing from the sources. A
      point entity is constructible with (board, coords, id, name, visible); it is
      registered with the board under the identifier given.\<close>
  "Point b cs pid nm shw =
     register pid
       \<lparr>ident = pid, name = nm, otype = OBJECT_TYPE_POINT, visible = shw, rendered = shw,
        notExistingParents = {}, descendants = [], coords = Some cs, fixed = False,
        labelShow = False, real_flag = False, needsUpdate = False, intersect1 = None,
        intersect2 = None, p = None, p1 = None, p2 = None, methods = Prototype\<rparr> b"

definition addChild :: "ident \<Rightarrow> element \<Rightarrow> element" where
  \<comment> \<open>Modelled from the spec: \<^verbatim>\<open>addChild\<close> of \<^verbatim>\<open>JXG.GeometryElement\<close> is missing from the
      sources. It registers the child as a dependent of the construct.\<close>
  "addChild child this = this\<lparr>descendants := descendants this @ [child]\<rparr>"

text \<open>
  A parent is handed to the constructor either as a string naming an element or as the
  element object itself.
\<close>

datatype parameter = Name ident | Element ident

definition GetReferenceFromParameter :: "board \<Rightarrow> parameter \<Rightarrow> ident option" where
  \<comment> \<open>Modelled from the spec: \<^verbatim>\<open>JXG.GetReferenceFromParameter\<close> is missing from the sources.
      \<^verbatim>\<open>resolveReference(ref) -> Element?\<close> yields the element the reference designates, or
      nothing when the reference fails to resolve.\<close>
  "GetReferenceFromParameter b r =
     (case r of
        Name s \<Rightarrow> (case lookup b s of None \<Rightarrow> None | Some e \<Rightarrow> Some s)
      | Element i \<Rightarrow> (case lookup b i of None \<Rightarrow> None | Some e \<Rightarrow> Some i))"


section \<open>Existence propagation\<close>

definition hideChild_descendant :: "ident \<Rightarrow> element \<Rightarrow> element" where
  \<comment> \<open>the body of the loop of \<^verbatim>\<open>hideChild\<close>, on the descendant \<open>d\<close>\<close>
  "hideChild_descendant id' d =
     (let d1 = (if visible d \<and> otype d \<noteq> OBJECT_TYPE_INTERSECTION
                then (element_hideElement d)\<lparr>visible := True\<rparr> else d)
      in d1\<lparr>notExistingParents := insert id' (notExistingParents d1)\<rparr>)"

definition descendants_of :: "board \<Rightarrow> ident \<Rightarrow> ident list" where
  \<comment> \<open>the keys the loop over \<^verbatim>\<open>this.descendants\<close> visits\<close>
  "descendants_of b self = (case lookup b self of None \<Rightarrow> [] | Some this \<Rightarrow> descendants this)"

definition hideChild_closure :: "ident \<Rightarrow> ident \<Rightarrow> board \<Rightarrow> board" where
  \<comment> \<open>the closure \<^verbatim>\<open>this.hideChild = function(id) {...}\<close>, the same text in all three
      branches of the constructor\<close>
  "hideChild_closure self id' b =
     (let b1 = modify self (\<lambda>this. this\<lparr>notExistingParents :=
                 insert id' (notExistingParents this)\<rparr>) b;
          ds = descendants_of b1 self
      in fold (\<lambda>el. modify el (hideChild_descendant id')) ds b1)"

definition hideChild :: "ident \<Rightarrow> ident \<Rightarrow> board \<Rightarrow> board" where
  \<comment> \<open>\<^verbatim>\<open>self.hideChild(id)\<close>: the prototype's method has an empty body\<close>
  "hideChild self id' b =
     (case lookup b self of
        None \<Rightarrow> b
      | Some this \<Rightarrow> (if methods this = Prototype then b else hideChild_closure self id' b))"

definition showChild_object :: "ident \<Rightarrow> element \<Rightarrow> element" where
  \<comment> \<open>the body of the loop of \<^verbatim>\<open>showChild\<close>, on the element \<open>obj\<close> of the board\<close>
  "showChild_object id' obj =
     (let o1 = obj\<lparr>notExistingParents := notExistingParents obj - {id'}\<rparr>
      in if visible o1 \<and> notExistingParents o1 = {}
         then (if otype o1 \<noteq> OBJECT_TYPE_INTERSECTION then element_showElement o1 else o1)
         else o1)"

fun showChild_loop :: "ident \<Rightarrow> (ident \<times> element) list \<Rightarrow> (ident \<times> element) list" where
  "showChild_loop id' [] = []"
| "showChild_loop id' ((el, obj) # rest) = (el, showChild_object id' obj) # showChild_loop id' rest"

definition showChild_closure :: "ident \<Rightarrow> board \<Rightarrow> board" where
  \<comment> \<open>the closure \<^verbatim>\<open>this.showChild = function(id) {...}\<close>, the same text in all three
      branches of the constructor\<close>
  "showChild_closure id' b = b\<lparr>objects := showChild_loop id' (objects b)\<rparr>"

definition showChild :: "ident \<Rightarrow> ident \<Rightarrow> board \<Rightarrow> board" where
  \<comment> \<open>\<^verbatim>\<open>self.showChild(id)\<close>: the prototype's method has an empty body\<close>
  "showChild self id' b =
     (case lookup b self of
        None \<Rightarrow> b
      | Some this \<Rightarrow> (if methods this = Prototype then b else showChild_closure id' b))"

section \<open>The constructor\<close>

text \<open>
  The constructor returns the board it leaves and the construct \<^verbatim>\<open>this\<close>, or the error it
  throws. The calls \<^verbatim>\<open>updateRenderer()\<close> and \<^verbatim>\<open>p1.update()\<close> on the points repaint what the
  fields already say and change no field of the model. Of the closures a branch assigns,
  \<^verbatim>\<open>update\<close>, \<^verbatim>\<open>hideChild\<close> and \<^verbatim>\<open>showChild\<close> are modelled; \<^verbatim>\<open>hideChild\<close> and \<^verbatim>\<open>showChild\<close>
  never call \<^verbatim>\<open>hideElement\<close> or \<^verbatim>\<open>showElement\<close> of an intersection.
\<close>

definition type_of :: "board \<Rightarrow> ident option \<Rightarrow> object_type option" where
  \<comment> \<open>\<^verbatim>\<open>x.type\<close> for a resolved reference \<open>x\<close>; \<open>None\<close> when \<open>x\<close> is \<^verbatim>\<open>undefined\<close>, where
      the read throws\<close>
  "type_of b r = (case r of None \<Rightarrow> None | Some i \<Rightarrow> map_option otype (lookup b i))"

definition parameter_type :: "board \<Rightarrow> parameter \<Rightarrow> object_type option" where
  \<comment> \<open>\<^verbatim>\<open>Intersect1.type\<close> on the constructor's argument itself: \<^verbatim>\<open>undefined\<close> (no throw) on
      a string\<close>
  "parameter_type b r =
     (case r of Name s \<Rightarrow> None | Element i \<Rightarrow> map_option otype (lookup b i))"

definition new_Intersection :: "board \<Rightarrow> ident \<Rightarrow> parameter \<Rightarrow> parameter \<Rightarrow> element" where
  \<comment> \<open>the fields set before the first test of the constructor; the fields inherited from
      \<^verbatim>\<open>JXG.GeometryElement\<close> start empty, and \<open>needsUpdate\<close> is set by the board\<close>
  "new_Intersection Board Id' Intersect1 Intersect2 =
     \<lparr>ident = Id', name = Id', otype = OBJECT_TYPE_INTERSECTION, visible = True,
      rendered = False, notExistingParents = {}, descendants = [], coords = None,
      fixed = False, labelShow = False, real_flag = True, needsUpdate = False,
      intersect1 = GetReferenceFromParameter Board Intersect1,
      intersect2 = GetReferenceFromParameter Board Intersect2,
      p = None, p1 = None, p2 = None, methods = Prototype\<rparr>"

definition Intersection_LineLine ::
  "algebra \<Rightarrow> board \<Rightarrow> element \<Rightarrow> ident \<Rightarrow> string \<Rightarrow> board \<times> element" where
  "Intersection_LineLine alg Board this InterId1 InterName1 =
     (let coords = tl (intersectLineLine alg Board (intersect1 this) (intersect2 this));
          b1 = Point Board coords InterId1 InterName1 True;
          b2 = modify InterId1 (\<lambda>e. e\<lparr>fixed := True\<rparr>) b1;
          this1 = (addChild InterId1 (this\<lparr>p := Some InterId1\<rparr>))\<lparr>real_flag := True\<rparr>
      in (b2, this1\<lparr>methods := LineLine\<rparr>))"

definition two_points :: "board \<Rightarrow> element \<Rightarrow> ident \<Rightarrow> ident \<Rightarrow> string \<Rightarrow> string \<Rightarrow> board \<times> element" where
  \<comment> \<open>the allocation of \<^verbatim>\<open>p1\<close> and \<^verbatim>\<open>p2\<close> that opens the second and the third branch\<close>
  "two_points Board this InterId1 InterId2 InterName1 InterName2 =
     (let b1 = Point Board [0, 0] InterId1 InterName1 False;
          b2 = modify InterId1 (\<lambda>e. e\<lparr>fixed := True, labelShow := True\<rparr>) b1;
          b3 = Point b2 [0, 0] InterId2 InterName2 False;
          b4 = modify InterId2 (\<lambda>e. e\<lparr>fixed := True, labelShow := True\<rparr>) b3;
          this1 = addChild InterId2 (addChild InterId1 (this\<lparr>p1 := Some InterId1, p2 := Some InterId2\<rparr>))
      in (b4, this1))"

definition Intersection_CircleCircle ::
  "algebra \<Rightarrow> board \<Rightarrow> element \<Rightarrow> ident \<Rightarrow> ident \<Rightarrow> string \<Rightarrow> string \<Rightarrow> board \<times> element" where
  "Intersection_CircleCircle alg Board this InterId1 InterId2 InterName1 InterName2 =
     (case two_points Board this InterId1 InterId2 InterName1 InterName2 of (b4, this1) \<Rightarrow>
      (case intersectCircleCircle alg b4 (intersect1 this1) (intersect2 this1) of (n, c1, c2) \<Rightarrow>
        (if n = 1
         then (let b5 = modify InterId1 (\<lambda>e. element_showElement (e\<lparr>coords := c1\<rparr>)) b4;
                   b6 = modify InterId2 (\<lambda>e. element_showElement (e\<lparr>coords := c2\<rparr>)) b5
               in (b6, this1\<lparr>real_flag := True, methods := CircleCircle\<rparr>))
         else (b4, this1\<lparr>real_flag := False, methods := CircleCircle\<rparr>))))"

definition Intersection_CircleLine ::
  "algebra \<Rightarrow> board \<Rightarrow> element \<Rightarrow> ident \<Rightarrow> ident \<Rightarrow> string \<Rightarrow> string \<Rightarrow> board \<times> element" where
  "Intersection_CircleLine alg Board this InterId1 InterId2 InterName1 InterName2 =
     (case two_points Board this InterId1 InterId2 InterName1 InterName2 of (b4, this1) \<Rightarrow>
      (let this2 = (if type_of Board (intersect1 this1) = Some OBJECT_TYPE_LINE
                       \<or> type_of Board (intersect1 this1) = Some OBJECT_TYPE_ARROW
                    then this1\<lparr>intersect1 := intersect2 this1, intersect2 := intersect1 this1\<rparr>
                    else this1)
       in (case intersectCircleLine alg b4 (intersect1 this2) (intersect2 this2) of (n, c1, c2) \<Rightarrow>
        (if n = 1
         then (modify InterId1 (\<lambda>e. element_showElement (e\<lparr>coords := c1\<rparr>)) b4,
               this2\<lparr>methods := CircleLine\<rparr>)
         else if n = 2
         then (let b5 = modify InterId1 (\<lambda>e. element_showElement (e\<lparr>coords := c1\<rparr>)) b4;
                   b6 = modify InterId2 (\<lambda>e. element_showElement (e\<lparr>coords := c2\<rparr>)) b5
               in (b6, this2\<lparr>real_flag := True, methods := CircleLine\<rparr>))
         else (b4, this2\<lparr>real_flag := False, methods := CircleLine\<rparr>)))))"

definition addIntersection :: "element \<Rightarrow> board \<Rightarrow> board" where
  \<comment> \<open>Modelled from the spec: \<^verbatim>\<open>board.addIntersection\<close> is missing from the sources.
      \<^verbatim>\<open>registerConstruct(construct) -> id\<close> enters the construct into the registry under
      its identifier.\<close>
  "addIntersection this b = register (ident this) this b"

definition Intersection ::
  "algebra \<Rightarrow> board \<Rightarrow> ident \<Rightarrow> parameter \<Rightarrow> parameter \<Rightarrow> ident \<Rightarrow> ident \<Rightarrow> string \<Rightarrow> string
     \<Rightarrow> error + board \<times> element" where
  "Intersection alg Board Id' Intersect1 Intersect2 InterId1 InterId2 InterName1 InterName2 =
     (let this = new_Intersection Board Id' Intersect1 Intersect2 in
      if intersect1 this = None \<and> intersect2 this = None then Inr (Board, this)
      else
        (case (type_of Board (intersect1 this), type_of Board (intersect2 this)) of
           (Some t1, Some t2) \<Rightarrow>
             (let r1 = parameter_type Board Intersect1; r2 = parameter_type Board Intersect2;
                  built =
                   (if (t1 = t2 \<and> (t1 = OBJECT_TYPE_LINE \<or> t1 = OBJECT_TYPE_ARROW))
                        \<or> (t1 = OBJECT_TYPE_LINE \<and> t2 = OBJECT_TYPE_ARROW)
                        \<or> (t2 = OBJECT_TYPE_LINE \<and> t1 = OBJECT_TYPE_ARROW)
                    then Intersection_LineLine alg Board this InterId1 InterName1
                    else if (r1 = r2 \<and> (r1 = Some OBJECT_TYPE_CIRCLE \<or> r1 = Some OBJECT_TYPE_ARC))
                        \<or> (r1 = Some OBJECT_TYPE_CIRCLE \<and> r2 = Some OBJECT_TYPE_ARC)
                        \<or> (r2 = Some OBJECT_TYPE_CIRCLE \<and> r1 = Some OBJECT_TYPE_ARC)
                    then Intersection_CircleCircle alg Board this InterId1 InterId2 InterName1 InterName2
                    else Intersection_CircleLine alg Board this InterId1 InterId2 InterName1 InterName2)
              in (case built of (b, this') \<Rightarrow> Inr (addIntersection this' b, this')))
         | _ \<Rightarrow> Inl TypeError))"

section \<open>Recomputation\<close>

definition deref :: "board \<Rightarrow> ident option \<Rightarrow> (ident \<times> element) option" where
  \<comment> \<open>the element behind a reference, with its key; \<open>None\<close> when the reference is
      \<^verbatim>\<open>undefined\<close>\<close>
  "deref b r = (case r of None \<Rightarrow> None | Some i \<Rightarrow> map_option (Pair i) (lookup b i))"

definition update_LineLine :: "algebra \<Rightarrow> ident \<Rightarrow> element \<Rightarrow> board \<Rightarrow> error + board" where
  "update_LineLine alg self this b =
     (if needsUpdate this
      then (case deref b (p this) of
              None \<Rightarrow> Inl TypeError
            | Some (i, e) \<Rightarrow>
                (let b1 = modify i (\<lambda>e. e\<lparr>coords :=
                            Some (intersectLineLine alg b (intersect1 this) (intersect2 this))\<rparr>) b
                 in Inr (modify self (\<lambda>t. t\<lparr>needsUpdate := False\<rparr>) b1)))
      else Inr b)"

definition update_CircleCircle :: "algebra \<Rightarrow> ident \<Rightarrow> element \<Rightarrow> board \<Rightarrow> error + board" where
  "update_CircleCircle alg self this b =
     (if \<not> needsUpdate this then Inr b
      else
        (case intersectCircleCircle alg b (intersect1 this) (intersect2 this) of (n, c1, c2) \<Rightarrow>
         (case (deref b (p1 this), deref b (p2 this)) of
            (Some (i1, e1), Some (i2, e2)) \<Rightarrow>
              (let p1show = visible e1; p2show = visible e2;
                   b' =
                    (if n = 0
                     then (if real_flag this
                           then (let b1 = hideChild_closure self (ident this) b;
                                     b2 = modify i1 (\<lambda>e. e\<lparr>visible := p1show\<rparr>) b1;
                                     b3 = modify i2 (\<lambda>e. e\<lparr>visible := p2show\<rparr>) b2
                                 in modify self (\<lambda>t. t\<lparr>real_flag := False\<rparr>) b3)
                           else b)
                     else (let b1 = modify i1 (\<lambda>e. e\<lparr>coords := c1\<rparr>) b;
                               b2 = modify i2 (\<lambda>e. e\<lparr>coords := c2\<rparr>) b1
                           in if \<not> real_flag this
                              then modify self (\<lambda>t. t\<lparr>real_flag := True\<rparr>)
                                     (showChild_closure (ident this) b2)
                              else b2))
               in Inr (modify self (\<lambda>t. t\<lparr>needsUpdate := False\<rparr>) b'))
          | _ \<Rightarrow> Inl TypeError)))"

definition update_CircleLine :: "algebra \<Rightarrow> ident \<Rightarrow> element \<Rightarrow> board \<Rightarrow> error + board" where
  "update_CircleLine alg self this b =
     (if \<not> needsUpdate this then Inr b
      else
        (case intersectCircleLine alg b (intersect1 this) (intersect2 this) of (n, c1, c2) \<Rightarrow>
         (case (deref b (p1 this), deref b (p2 this)) of
            (Some (i1, e1), Some (i2, e2)) \<Rightarrow>
              (let show1 = visible e1; show2 = visible e2;
                   b' =
                    (if n = 0
                     then (if real_flag this
                           then (let b1 = hideChild_closure self (ident this) b;
                                     b2 = modify i1 (\<lambda>e. e\<lparr>visible := show1\<rparr>) b1;
                                     b3 = modify i2 (\<lambda>e. e\<lparr>visible := show2\<rparr>) b2
                                 in modify self (\<lambda>t. t\<lparr>real_flag := False\<rparr>) b3)
                           else b)
                     else if n = 2
                     then (let b1 = modify i1 (\<lambda>e. e\<lparr>coords := c1\<rparr>) b;
                               b2 = modify i2 (\<lambda>e. e\<lparr>coords := c2\<rparr>) b1
                           in if \<not> real_flag this
                              then modify self (\<lambda>t. t\<lparr>real_flag := True\<rparr>)
                                     (showChild_closure (ident this) b2)
                              else b2)
                     else b)
               in Inr (modify self (\<lambda>t. t\<lparr>needsUpdate := False\<rparr>) b'))
          | _ \<Rightarrow> Inl TypeError)))"

definition update :: "algebra \<Rightarrow> ident \<Rightarrow> board \<Rightarrow> error + board" where
  \<comment> \<open>\<^verbatim>\<open>self.update()\<close>: the closure the constructor assigned, or the prototype's method,
      which returns at once\<close>
  "update alg self b =
     (case lookup b self of
        None \<Rightarrow> Inr b
      | Some this \<Rightarrow>
          (case methods this of
             Prototype \<Rightarrow> Inr b
           | LineLine \<Rightarrow> update_LineLine alg self this b
           | CircleCircle \<Rightarrow> update_CircleCircle alg self this b
           | CircleLine \<Rightarrow> update_CircleLine alg self this b))"

section \<open>Removal\<close>


section \<open>Observations and a sample scene\<close>

definition after :: "error + board \<Rightarrow> ident \<Rightarrow> element option" where
  \<comment> \<open>the element under a key once an operation has returned; nothing when it threw\<close>
  "after r k = (case r of Inl err \<Rightarrow> None | Inr b \<Rightarrow> lookup b k)"

definition construct_of :: "error + board \<times> element \<Rightarrow> element option" where
  \<comment> \<open>the construct a call of the constructor leaves behind; nothing when it threw\<close>
  "construct_of r = (case r of Inl err \<Rightarrow> None | Inr (b, this) \<Rightarrow> Some this)"

definition point_of :: "error + board \<times> element \<Rightarrow> ident \<Rightarrow> element option" where
  \<comment> \<open>the element under a key of the board a call of the constructor leaves behind\<close>
  "point_of r k = (case r of Inl err \<Rightarrow> None | Inr (b, this) \<Rightarrow> lookup b k)"


definition plain :: "ident \<Rightarrow> object_type \<Rightarrow> bool \<Rightarrow> element" where
  \<comment> \<open>an element of the sample scene: displayed exactly when it is visible, blocked by
      nothing, with no dependents\<close>
  "plain i t v =
     \<lparr>ident = i, name = i, otype = t, visible = v, rendered = v, notExistingParents = {},
      descendants = [], coords = None, fixed = False, labelShow = False, real_flag = False,
      needsUpdate = False, intersect1 = None, intersect2 = None, p = None, p1 = None,
      p2 = None, methods = Prototype\<rparr>"

definition scene :: board where
  \<comment> \<open>two circles and a line; \<open>X\<close> intersects the circles, \<open>Y\<close> the first circle and the
      line; the segment \<open>E\<close> joins a point of \<open>X\<close> and a point of \<open>Y\<close>; the text \<open>H\<close> hangs
      on \<open>X\<close> and was hidden by the user\<close>
  "scene = \<lparr>objects =
     [(''c1'', plain ''c1'' OBJECT_TYPE_CIRCLE True),
      (''c2'', plain ''c2'' OBJECT_TYPE_CIRCLE True),
      (''l'', plain ''l'' OBJECT_TYPE_LINE True),
      (''P1'', (plain ''P1'' OBJECT_TYPE_POINT True)\<lparr>fixed := True, coords := Some [1, 4, 3]\<rparr>),
      (''P2'', (plain ''P2'' OBJECT_TYPE_POINT True)\<lparr>fixed := True, coords := Some [1, 4, -3]\<rparr>),
      (''X'', (plain ''X'' OBJECT_TYPE_INTERSECTION True)
                \<lparr>rendered := False, descendants := [''P1'', ''P2'', ''E'', ''H''],
                 real_flag := True, needsUpdate := True, intersect1 := Some ''c1'',
                 intersect2 := Some ''c2'', p1 := Some ''P1'', p2 := Some ''P2'',
                 methods := CircleCircle\<rparr>),
      (''Q1'', (plain ''Q1'' OBJECT_TYPE_POINT True)\<lparr>fixed := True, coords := Some [1, 0, 5]\<rparr>),
      (''Q2'', (plain ''Q2'' OBJECT_TYPE_POINT True)\<lparr>fixed := True, coords := Some [1, 0, -5]\<rparr>),
      (''Y'', (plain ''Y'' OBJECT_TYPE_INTERSECTION True)
                \<lparr>rendered := False, descendants := [''Q1'', ''Q2'', ''E''],
                 real_flag := True, needsUpdate := True, intersect1 := Some ''c1'',
                 intersect2 := Some ''l'', p1 := Some ''Q1'', p2 := Some ''Q2'',
                 methods := CircleLine\<rparr>),
      (''E'', plain ''E'' OBJECT_TYPE_LINE True),
      (''H'', plain ''H'' OBJECT_TYPE_TEXT False)]\<rparr>"

definition blocked_scene :: board where
  \<comment> \<open>the sample scene after both constructs have blocked their dependents\<close>
  "blocked_scene = hideChild ''Y'' ''Y'' (hideChild ''X'' ''X'' scene)"

definition reporting :: "nat \<Rightarrow> algebra" where
  \<comment> \<open>a solver that reports the count \<open>n\<close> for circles, with two coordinates\<close>
  "reporting n =
     \<lparr>intersectLineLine = (\<lambda>b r1 r2. [1, 2, 0]),
      intersectCircleCircle = (\<lambda>b r1 r2. (n, Some [1, 3, 4], Some [1, 3, -4])),
      intersectCircleLine = (\<lambda>b r1 r2. (n, Some [1, 5, 0], Some [1, -5, 0]))\<rparr>"

definition parents :: board where
  \<comment> \<open>a board before any intersection is constructed\<close>
  "parents = \<lparr>objects =
     [(''c1'', plain ''c1'' OBJECT_TYPE_CIRCLE True),
      (''c2'', plain ''c2'' OBJECT_TYPE_CIRCLE True),
      (''l'', plain ''l'' OBJECT_TYPE_LINE True),
      (''m'', plain ''m'' OBJECT_TYPE_LINE True),
      (''A'', plain ''A'' OBJECT_TYPE_POINT True),
      (''T'', plain ''T'' OBJECT_TYPE_TEXT True)]\<rparr>"

definition clean_scene :: board where
  \<comment> \<open>the sample scene with no construct marked for recomputation\<close>
  "clean_scene =
     modify ''Y'' (\<lambda>t. t\<lparr>needsUpdate := False\<rparr>)
       (modify ''X'' (\<lambda>t. t\<lparr>needsUpdate := False\<rparr>) scene)"

definition tangent_scene :: board where
  \<comment> \<open>the sample scene with the construct \<open>Y\<close> of the circle and the line not real\<close>
  "tangent_scene = modify ''Y'' (\<lambda>t. t\<lparr>real_flag := False\<rparr>) scene"

definition solve :: "algebra \<Rightarrow> element \<Rightarrow> board \<Rightarrow> nat \<times> real list option \<times> real list option" where
  \<comment> \<open>the solver call that opens \<^verbatim>\<open>update\<close> of a construct with circles\<close>
  "solve alg this b =
     (if methods this = CircleLine
      then intersectCircleLine alg b (intersect1 this) (intersect2 this)
      else intersectCircleCircle alg b (intersect1 this) (intersect2 this))"

definition unreal_board :: "ident \<Rightarrow> element \<Rightarrow> ident \<Rightarrow> ident \<Rightarrow> bool \<Rightarrow> bool \<Rightarrow> board \<Rightarrow> board" where
  \<comment> \<open>the board \<^verbatim>\<open>update\<close> leaves when a real construct finds no solution\<close>
  "unreal_board self this i1 i2 v1 v2 b =
     modify self (\<lambda>t. t\<lparr>needsUpdate := False\<rparr>)
       (modify self (\<lambda>t. t\<lparr>real_flag := False\<rparr>)
         (modify i2 (\<lambda>e. e\<lparr>visible := v2\<rparr>)
           (modify i1 (\<lambda>e. e\<lparr>visible := v1\<rparr>)
             (hideChild_closure self (ident this) b))))"

definition real_board ::
  "ident \<Rightarrow> element \<Rightarrow> ident \<Rightarrow> ident \<Rightarrow> real list option \<Rightarrow> real list option \<Rightarrow> board \<Rightarrow> board" where
  \<comment> \<open>the board \<^verbatim>\<open>update\<close> leaves when the solution is written to the points\<close>
  "real_board self this i1 i2 c1 c2 b =
     modify self (\<lambda>t. t\<lparr>needsUpdate := False\<rparr>)
       (let b2 = modify i2 (\<lambda>e. e\<lparr>coords := c2\<rparr>) (modify i1 (\<lambda>e. e\<lparr>coords := c1\<rparr>) b)
        in if \<not> real_flag this
           then modify self (\<lambda>t. t\<lparr>real_flag := True\<rparr>) (showChild_closure (ident this) b2)
           else b2)"

definition first_update :: "algebra \<Rightarrow> ident \<Rightarrow> error + board \<times> element \<Rightarrow> error + board" where
  \<comment> \<open>the first \<^verbatim>\<open>update()\<close> of the construct a call of the constructor registered under
      \<open>self\<close>, once the board has marked it for recomputation\<close>
  "first_update alg self r =
     (case r of
        Inl err \<Rightarrow> Inl err
      | Inr (b, this) \<Rightarrow> update alg self (modify self (\<lambda>t. t\<lparr>needsUpdate := True\<rparr>) b))"



section \<open>Reading the board after a write\<close>

lemma lookup_modify:
  "lookup (modify k f b) k' = (if k' = k then map_option f (lookup b k) else lookup b k')"
  by (simp add: lookup_def modify_def map_of_map_entry split: option.splits)

lemma lookup_register:
  "lookup (register k e b) k' = (if k' = k then Some e else lookup b k')"
  by (simp add: lookup_def register_def update_conv')

lemma lookup_fold_modify:
  assumes idem: "\<And>x. f (f x) = f x"
  shows "lookup (fold (\<lambda>el. modify el f) ds b) k =
           (if k \<in> set ds then map_option f (lookup b k) else lookup b k)"
proof (induction ds arbitrary: b)
  case Nil
  show ?case by simp
next
  case (Cons d ds)
  show ?case
    by (cases "lookup b k") (auto simp: Cons.IH lookup_modify idem)
qed

lemma hideChild_descendant_idem:
  "hideChild_descendant x (hideChild_descendant x d) = hideChild_descendant x d"
  by (simp add: hideChild_descendant_def element_hideElement_def Let_def)

lemma descendants_of_Some: "lookup b self = Some this \<Longrightarrow> descendants_of b self = descendants this"
  by (simp add: descendants_of_def)

lemma descendants_of_block:
  "descendants_of
     (modify self (\<lambda>t. t\<lparr>notExistingParents := insert x (notExistingParents t)\<rparr>) b) self
   = descendants_of b self"
  by (cases "lookup b self") (simp_all add: descendants_of_def lookup_modify)

lemma lookup_hideChild_closure:
  "lookup (hideChild_closure self x b) k =
     map_option
       (\<lambda>e. (if k \<in> set (descendants_of b self) then hideChild_descendant x else (\<lambda>e. e))
              ((if k = self
                then (\<lambda>t. t\<lparr>notExistingParents := insert x (notExistingParents t)\<rparr>)
                else (\<lambda>e. e)) e))
       (lookup b k)"
  unfolding hideChild_closure_def Let_def descendants_of_block
  by (cases "lookup b k")
     (auto simp: lookup_fold_modify hideChild_descendant_idem lookup_modify)

lemma map_of_showChild_loop:
  "map_of (showChild_loop x al) k = map_option (showChild_object x) (map_of al k)"
  by (induction x al rule: showChild_loop.induct) auto

lemma lookup_showChild_closure:
  "lookup (showChild_closure x b) k = map_option (showChild_object x) (lookup b k)"
  by (simp add: lookup_def showChild_closure_def map_of_showChild_loop)

lemma methods_showChild_object: "methods (showChild_object x e) = methods e"
  by (simp add: showChild_object_def element_showElement_def Let_def)

lemma methods_hideChild_descendant: "methods (hideChild_descendant x e) = methods e"
  by (simp add: hideChild_descendant_def element_hideElement_def Let_def)

lemma showChild_eq:
  "lookup b X = Some x \<Longrightarrow> methods x \<noteq> Prototype \<Longrightarrow> showChild X A b = showChild_closure A b"
  by (simp add: showChild_def)

lemma hideChild_eq:
  "lookup b X = Some x \<Longrightarrow> methods x \<noteq> Prototype \<Longrightarrow> hideChild X A b = hideChild_closure X A b"
  by (simp add: hideChild_def)

lemma lookup_hideChild_closure_Some:
  assumes "lookup b k = Some e"
  shows "lookup (hideChild_closure self x b) k =
     Some ((if k \<in> set (descendants_of b self) then hideChild_descendant x else (\<lambda>e. e))
           ((if k = self then (\<lambda>t. t\<lparr>notExistingParents := insert x (notExistingParents t)\<rparr>)
             else (\<lambda>e. e)) e))"
  by (simp add: lookup_hideChild_closure assms)

lemma showChild_hideChild_invisible:
  assumes "\<not> visible e"
  shows "showChild_object x
           ((if c then hideChild_descendant x else (\<lambda>e. e))
             ((if c' then (\<lambda>t. t\<lparr>notExistingParents := insert x (notExistingParents t)\<rparr>)
               else (\<lambda>e. e)) e))
         = e\<lparr>notExistingParents := notExistingParents e - {x}\<rparr>"
  using assms by (simp add: showChild_object_def hideChild_descendant_def Let_def)

section \<open>Blocking and unblocking\<close>

text \<open>
  Claim C1 (blocking composition). Let the element \<open>E\<close> be hidden and carry the two
  distinct ancestors \<open>A\<close> and \<open>B\<close> in its \<open>notExistingParents\<close>. After \<open>showChild A\<close> the
  element is as before but for the removed key \<open>A\<close>, so it is still hidden. After
  \<open>showChild A\<close> and \<open>showChild B\<close> it is displayed exactly when its visible flag is set,
  it is not an intersection, and no third ancestor blocks it.
\<close>

theorem blocking_composition:
  assumes "A \<noteq> B"
    and "lookup b E = Some e" and "A \<in> notExistingParents e" and "B \<in> notExistingParents e"
    and "\<not> rendered e"
    and "lookup b X = Some x" and "methods x \<noteq> Prototype"
    and "lookup b Y = Some y" and "methods y \<noteq> Prototype"
  shows "lookup (showChild X A b) E = Some (e\<lparr>notExistingParents := notExistingParents e - {A}\<rparr>)
       \<and> map_option rendered (lookup (showChild X A b) E) = Some False
       \<and> map_option rendered (lookup (showChild Y B (showChild X A b)) E)
           = Some (visible e \<and> otype e \<noteq> OBJECT_TYPE_INTERSECTION \<and> notExistingParents e = {A, B})"
proof -
  have s1: "showChild X A b = showChild_closure A b"
    using assms(6,7) by (rule showChild_eq)
  have nonempty: "notExistingParents e - {A} \<noteq> {}"
    using assms(1,4) by auto
  have e1: "showChild_object A e = e\<lparr>notExistingParents := notExistingParents e - {A}\<rparr>"
    using nonempty by (simp add: showChild_object_def Let_def)
  have l1: "lookup (showChild X A b) E = Some (e\<lparr>notExistingParents := notExistingParents e - {A}\<rparr>)"
    by (simp add: s1 lookup_showChild_closure assms(2) e1)
  have ly: "lookup (showChild X A b) Y = Some (showChild_object A y)"
    by (simp add: s1 lookup_showChild_closure assms(8))
  have s2: "showChild Y B (showChild X A b) = showChild_closure B (showChild X A b)"
    using ly by (rule showChild_eq) (simp add: assms(9) methods_showChild_object)
  have sets: "(notExistingParents e - {A} - {B} = {}) = (notExistingParents e = {A, B})"
    using assms(3,4) by auto
  have l2: "map_option rendered (lookup (showChild Y B (showChild X A b)) E)
           = Some (visible e \<and> otype e \<noteq> OBJECT_TYPE_INTERSECTION \<and> notExistingParents e = {A, B})"
    using assms(5) sets
    by (simp add: s2 lookup_showChild_closure l1 showChild_object_def element_showElement_def Let_def)
  show ?thesis using l1 l2 assms(5) by simp
qed

theorem blocking_composition_witness:
  "map_option rendered (lookup blocked_scene ''E'') = Some False
   \<and> map_option rendered (lookup (showChild ''X'' ''X'' blocked_scene) ''E'') = Some False
   \<and> map_option rendered
        (lookup (showChild ''Y'' ''Y'' (showChild ''X'' ''X'' blocked_scene)) ''E'') = Some True"
proof -
  let ?e = "(plain ''E'' OBJECT_TYPE_LINE True)\<lparr>rendered := False, notExistingParents := {''X'', ''Y''}\<rparr>"
  have E: "lookup blocked_scene ''E'' = Some ?e"
    by (simp add: blocked_scene_def scene_def plain_def hideChild_def hideChild_closure_def
          hideChild_descendant_def element_hideElement_def lookup_def modify_def Let_def descendants_of_def
          insert_commute)
  obtain x where X: "lookup blocked_scene ''X'' = Some x" and Xm: "methods x \<noteq> Prototype"
    by (simp add: blocked_scene_def scene_def plain_def hideChild_def hideChild_closure_def
          hideChild_descendant_def element_hideElement_def lookup_def modify_def Let_def descendants_of_def)
  obtain y where Y: "lookup blocked_scene ''Y'' = Some y" and Ym: "methods y \<noteq> Prototype"
    by (simp add: blocked_scene_def scene_def plain_def hideChild_def hideChild_closure_def
          hideChild_descendant_def element_hideElement_def lookup_def modify_def Let_def descendants_of_def)
  have d: "''X'' \<noteq> ''Y''" by simp
  have r: "\<not> rendered ?e" by simp
  have a: "''X'' \<in> notExistingParents ?e" by simp
  have c: "''Y'' \<in> notExistingParents ?e" by simp
  from blocking_composition [OF d E a c r X Xm Y Ym] E show ?thesis
    by (simp add: plain_def)
qed

text \<open>
  Claim C5 (restoration never overrides intent). An element whose visible flag is clear
  when a construct blocks its dependents with the key \<open>x\<close> is, after the construct has
  unblocked with \<open>x\<close>, the element it was but for the key \<open>x\<close> in \<open>notExistingParents\<close>:
  its visible flag is still clear and its displayed state is untouched, whether or not
  \<open>notExistingParents\<close> is empty by then.
\<close>

theorem restoration_keeps_intent:
  assumes "lookup b self = Some this" and "methods this \<noteq> Prototype"
    and "lookup b E = Some e" and "\<not> visible e"
  shows "lookup (showChild self x (hideChild self x b)) E
           = Some (e\<lparr>notExistingParents := notExistingParents e - {x}\<rparr>)"
proof -
  have h: "hideChild self x b = hideChild_closure self x b"
    using assms(1,2) by (rule hideChild_eq)
  obtain t where t: "lookup (hideChild self x b) self = Some t" "methods t \<noteq> Prototype"
    using assms(2)
    by (simp add: h lookup_hideChild_closure_Some [OF assms(1)] methods_hideChild_descendant)
  have s: "showChild self x (hideChild self x b) = showChild_closure x (hideChild_closure self x b)"
    using showChild_eq [OF t] h by simp
  show ?thesis
    unfolding s lookup_showChild_closure lookup_hideChild_closure_Some [OF assms(3)]
    using showChild_hideChild_invisible [OF assms(4)] by simp
qed

theorem restoration_keeps_intent_witness:
  "map_option notExistingParents (lookup (hideChild ''X'' ''X'' scene) ''H'') = Some {''X''}
   \<and> lookup (showChild ''X'' ''X'' (hideChild ''X'' ''X'' scene)) ''H''
       = Some (plain ''H'' OBJECT_TYPE_TEXT False)"
proof -
  obtain x where X: "lookup scene ''X'' = Some x" and Xm: "methods x \<noteq> Prototype"
    by (simp add: scene_def plain_def lookup_def)
  have H: "lookup scene ''H'' = Some (plain ''H'' OBJECT_TYPE_TEXT False)"
    by (simp add: scene_def lookup_def)
  have v: "\<not> visible (plain ''H'' OBJECT_TYPE_TEXT False)"
    by (simp add: plain_def)
  have blocked: "map_option notExistingParents (lookup (hideChild ''X'' ''X'' scene) ''H'') = Some {''X''}"
    by (simp add: scene_def plain_def hideChild_def hideChild_closure_def descendants_of_def
          hideChild_descendant_def element_hideElement_def lookup_def modify_def Let_def)
  from restoration_keeps_intent [OF X Xm H v, of "''X''"] blocked show ?thesis
    by (simp add: plain_def)
qed

text \<open>
  Claim C9 (every descendant is recorded). When a construct blocks with the key \<open>x\<close>,
  every element among its descendants carries \<open>x\<close> in \<open>notExistingParents\<close> afterwards,
  invisible elements and intersections included; the visible flag of none of them
  changes; exactly the visible elements that are not intersections stop being displayed;
  and no later unblocking with a key other than \<open>x\<close> displays any of them.
\<close>

theorem hideChild_records_every_descendant:
  assumes "lookup b self = Some this" and "methods this \<noteq> Prototype"
    and "d \<in> set (descendants this)" and "lookup b d = Some e"
  shows "\<exists>e'. lookup (hideChild self x b) d = Some e'
           \<and> x \<in> notExistingParents e'
           \<and> visible e' = visible e
           \<and> rendered e' = (rendered e \<and> \<not> (visible e \<and> otype e \<noteq> OBJECT_TYPE_INTERSECTION))
           \<and> (\<forall>s y. y \<noteq> x \<longrightarrow>
                 map_option rendered (lookup (showChild s y (hideChild self x b)) d)
                   = Some (rendered e'))"
proof -
  have h: "hideChild self x b = hideChild_closure self x b"
    using assms(1,2) by (rule hideChild_eq)
  define e1 where "e1 = (if d = self then e\<lparr>notExistingParents := insert x (notExistingParents e)\<rparr> else e)"
  have l: "lookup (hideChild self x b) d = Some (hideChild_descendant x e1)"
    using assms(3) by (simp add: h lookup_hideChild_closure_Some [OF assms(4)] descendants_of_Some [OF assms(1)] e1_def)
  have v: "visible e1 = visible e" "rendered e1 = rendered e" "otype e1 = otype e"
    by (simp_all add: e1_def)
  have in_x: "x \<in> notExistingParents (hideChild_descendant x e1)"
    by (simp add: hideChild_descendant_def Let_def)
  have vis: "visible (hideChild_descendant x e1) = visible e"
    using v by (simp add: hideChild_descendant_def element_hideElement_def Let_def)
  have ren: "rendered (hideChild_descendant x e1)
               = (rendered e \<and> \<not> (visible e \<and> otype e \<noteq> OBJECT_TYPE_INTERSECTION))"
    using v by (simp add: hideChild_descendant_def element_hideElement_def Let_def)
  have keep: "rendered (showChild_object y e') = rendered e'"
    if "y \<noteq> x" "x \<in> notExistingParents e'" for y e'
  proof -
    have "notExistingParents e' - {y} \<noteq> {}" using that by auto
    then show ?thesis by (simp add: showChild_object_def Let_def)
  qed
  have later: "map_option rendered (lookup (showChild s y (hideChild self x b)) d)
                 = Some (rendered (hideChild_descendant x e1))" if "y \<noteq> x" for s y
  proof (cases "lookup (hideChild self x b) s")
    case None
    then show ?thesis by (simp add: showChild_def l)
  next
    case (Some t)
    then show ?thesis
      using keep [OF that in_x]
      by (simp add: showChild_def l lookup_showChild_closure)
  qed
  show ?thesis
    using l in_x vis ren later by blast
qed

theorem hideChild_records_every_descendant_witness:
  "map_option notExistingParents (lookup (hideChild ''X'' ''X'' scene) ''H'') = Some {''X''}
   \<and> map_option rendered (lookup (hideChild ''X'' ''X'' scene) ''E'') = Some False
   \<and> map_option rendered (lookup (showChild ''Y'' ''Y'' (hideChild ''X'' ''X'' scene)) ''E'')
       = Some False"
proof -
  let ?x = "(plain ''X'' OBJECT_TYPE_INTERSECTION True)
                \<lparr>rendered := False, descendants := [''P1'', ''P2'', ''E'', ''H''],
                 real_flag := True, needsUpdate := True, intersect1 := Some ''c1'',
                 intersect2 := Some ''c2'', p1 := Some ''P1'', p2 := Some ''P2'',
                 methods := CircleCircle\<rparr>"
  have X: "lookup scene ''X'' = Some ?x"
    by (simp add: scene_def lookup_def)
  have Xm: "methods ?x \<noteq> Prototype" by simp
  have H: "lookup scene ''H'' = Some (plain ''H'' OBJECT_TYPE_TEXT False)"
    by (simp add: scene_def lookup_def)
  have E: "lookup scene ''E'' = Some (plain ''E'' OBJECT_TYPE_LINE True)"
    by (simp add: scene_def lookup_def)
  have dH: "''H'' \<in> set (descendants ?x)" by simp
  have dE: "''E'' \<in> set (descendants ?x)" by simp
  have ne: "''Y'' \<noteq> ''X''" by simp
  from hideChild_records_every_descendant [OF X Xm dH H, of "''X''"]
  have h: "map_option notExistingParents (lookup (hideChild ''X'' ''X'' scene) ''H'') = Some {''X''}"
    by (simp add: scene_def plain_def hideChild_def hideChild_closure_def descendants_of_def
          hideChild_descendant_def element_hideElement_def lookup_def modify_def Let_def)
  from hideChild_records_every_descendant [OF X Xm dE E, of "''X''"] ne
  have e: "map_option rendered (lookup (hideChild ''X'' ''X'' scene) ''E'') = Some False
    \<and> map_option rendered (lookup (showChild ''Y'' ''Y'' (hideChild ''X'' ''X'' scene)) ''E'')
       = Some False"
    by (auto simp: plain_def)
  from h e show ?thesis by simp
qed

section \<open>Properties of recomputation\<close>

lemma visible_hideChild_descendant: "visible (hideChild_descendant x e) = visible e"
  by (simp add: hideChild_descendant_def element_hideElement_def Let_def)

lemma visible_hideChild_closure:
  "map_option visible (lookup (hideChild_closure self x b) k) = map_option visible (lookup b k)"
  by (cases "lookup b k") (simp_all add: lookup_hideChild_closure visible_hideChild_descendant)

lemma lookup_None_hideChild_closure:
  "lookup (hideChild_closure self x b) k = None \<longleftrightarrow> lookup b k = None"
  by (simp add: lookup_hideChild_closure)

lemma unreal_board_visible:
  assumes "lookup b i1 = Some e1" and "lookup b i2 = Some e2"
  shows "map_option visible (lookup (unreal_board self this i1 i2 (visible e1) (visible e2) b) k)
           = map_option visible (lookup b k)"
proof -
  let ?h = "hideChild_closure self (ident this) b"
  have h: "map_option visible (lookup ?h k') = map_option visible (lookup b k')" for k'
    by (rule visible_hideChild_closure)
  obtain h1 where h1: "lookup ?h i1 = Some h1"
    using assms(1) lookup_None_hideChild_closure [of self "ident this" b i1] by (cases "lookup ?h i1") auto
  obtain h2 where h2: "lookup ?h i2 = Some h2"
    using assms(2) lookup_None_hideChild_closure [of self "ident this" b i2] by (cases "lookup ?h i2") auto
  show ?thesis
    using h [of k] h [of i1] h [of i2] assms
    by (cases "lookup ?h k") (auto simp: unreal_board_def lookup_modify h1 h2)
qed

lemma proj_modify:
  assumes "\<And>e. g (f e) = g e"
  shows "map_option g (lookup (modify k f b) k') = map_option g (lookup b k')"
  by (cases "lookup b k") (auto simp: lookup_modify assms)

lemma unreal_board_keeps:
  "map_option (\<lambda>e. (notExistingParents e, rendered e))
     (lookup (unreal_board self this i1 i2 v1 v2 b) d)
   = map_option (\<lambda>e. (notExistingParents e, rendered e))
       (lookup (hideChild_closure self (ident this) b) d)"
  by (simp add: unreal_board_def proj_modify)

lemma unreal_board_descendant:
  assumes "lookup b self = Some this" and "d \<in> set (descendants this)" and "lookup b d = Some e"
  shows "\<exists>e'. lookup (unreal_board self this i1 i2 v1 v2 b) d = Some e'
           \<and> ident this \<in> notExistingParents e'
           \<and> rendered e' = (rendered e \<and> \<not> (visible e \<and> otype e \<noteq> OBJECT_TYPE_INTERSECTION))"
proof -
  define e0 where "e0 = (if d = self
      then e\<lparr>notExistingParents := insert (ident this) (notExistingParents e)\<rparr> else e)"
  have l: "lookup (hideChild_closure self (ident this) b) d = Some (hideChild_descendant (ident this) e0)"
    using assms(2)
    by (simp add: lookup_hideChild_closure_Some [OF assms(3)] descendants_of_Some [OF assms(1)] e0_def)
  have v: "visible e0 = visible e" "rendered e0 = rendered e" "otype e0 = otype e"
    by (simp_all add: e0_def)
  have in_x: "ident this \<in> notExistingParents (hideChild_descendant (ident this) e0)"
    by (simp add: hideChild_descendant_def Let_def)
  have ren: "rendered (hideChild_descendant (ident this) e0)
               = (rendered e \<and> \<not> (visible e \<and> otype e \<noteq> OBJECT_TYPE_INTERSECTION))"
    using v by (simp add: hideChild_descendant_def element_hideElement_def Let_def)
  show ?thesis
    using unreal_board_keeps [of self this i1 i2 v1 v2 b d] in_x ren
    by (cases "lookup (unreal_board self this i1 i2 v1 v2 b) d") (auto simp: l)
qed

lemma lookup_modify_None: "(lookup (modify k f b) k' = None) = (lookup b k' = None)"
  by (simp add: lookup_modify)

lemma unreal_board_real:
  assumes "lookup b self = Some this"
  shows "map_option real_flag (lookup (unreal_board self this i1 i2 v1 v2 b) self) = Some False"
proof -
  have "lookup (modify i2 (\<lambda>e. e\<lparr>visible := v2\<rparr>)
           (modify i1 (\<lambda>e. e\<lparr>visible := v1\<rparr>)
             (hideChild_closure self (ident this) b))) self \<noteq> None"
    by (simp add: lookup_modify_None lookup_None_hideChild_closure assms)
  then show ?thesis
    by (auto simp: unreal_board_def lookup_modify)
qed

lemma update_CircleCircle_zero:
  assumes "needsUpdate this" and "real_flag this"
    and "deref b (p1 this) = Some (i1, e1)" and "deref b (p2 this) = Some (i2, e2)"
    and "fst (intersectCircleCircle alg b (intersect1 this) (intersect2 this)) = 0"
  shows "update_CircleCircle alg self this b
           = Inr (unreal_board self this i1 i2 (visible e1) (visible e2) b)"
  using assms
  by (cases "intersectCircleCircle alg b (intersect1 this) (intersect2 this)")
     (simp add: update_CircleCircle_def unreal_board_def Let_def)

lemma update_CircleLine_zero:
  assumes "needsUpdate this" and "real_flag this"
    and "deref b (p1 this) = Some (i1, e1)" and "deref b (p2 this) = Some (i2, e2)"
    and "fst (intersectCircleLine alg b (intersect1 this) (intersect2 this)) = 0"
  shows "update_CircleLine alg self this b
           = Inr (unreal_board self this i1 i2 (visible e1) (visible e2) b)"
  using assms
  by (cases "intersectCircleLine alg b (intersect1 this) (intersect2 this)")
     (simp add: update_CircleLine_def unreal_board_def Let_def)

lemma deref_Some: "deref b r = Some (i, e) \<Longrightarrow> r = Some i \<and> lookup b i = Some e"
  by (auto simp: deref_def split: option.splits)

lemma proj_showChild_closure:
  assumes "\<And>e. g (showChild_object x e) = g e"
  shows "map_option g (lookup (showChild_closure x b) k) = map_option g (lookup b k)"
  by (cases "lookup b k") (simp_all add: lookup_showChild_closure assms)

lemma coords_showChild_object: "coords (showChild_object x e) = coords e"
  by (simp add: showChild_object_def element_showElement_def Let_def)

lemma lookup_None_showChild_closure:
  "(lookup (showChild_closure x b) k = None) = (lookup b k = None)"
  by (simp add: lookup_showChild_closure)

lemma real_board_real:
  assumes "lookup b self = Some this"
  shows "map_option real_flag (lookup (real_board self this i1 i2 c1 c2 b) self) = Some True"
proof (cases "real_flag this")
  case True
  then show ?thesis
    by (simp add: real_board_def Let_def proj_modify assms)
next
  case False
  have "lookup (showChild_closure (ident this)
          (modify i2 (\<lambda>e. e\<lparr>coords := c2\<rparr>) (modify i1 (\<lambda>e. e\<lparr>coords := c1\<rparr>) b))) self \<noteq> None"
    by (simp add: lookup_None_showChild_closure lookup_modify_None assms)
  with False show ?thesis
    by (auto simp: real_board_def Let_def lookup_modify)
qed

lemma real_board_coords:
  assumes "lookup b i1 = Some e1" and "lookup b i2 = Some e2" and "i1 \<noteq> i2"
  shows "map_option coords (lookup (real_board self this i1 i2 c1 c2 b) i1) = Some c1
       \<and> map_option coords (lookup (real_board self this i1 i2 c1 c2 b) i2) = Some c2"
proof -
  let ?b2 = "modify i2 (\<lambda>e. e\<lparr>coords := c2\<rparr>) (modify i1 (\<lambda>e. e\<lparr>coords := c1\<rparr>) b)"
  have b2: "map_option coords (lookup ?b2 i1) = Some c1" "map_option coords (lookup ?b2 i2) = Some c2"
    using assms by (simp_all add: lookup_modify)
  have "map_option coords (lookup (real_board self this i1 i2 c1 c2 b) k)
          = map_option coords (lookup ?b2 k)" for k
    by (simp add: real_board_def Let_def proj_modify proj_showChild_closure coords_showChild_object)
  with b2 show ?thesis by simp
qed

lemma update_CircleCircle_nonzero:
  assumes "needsUpdate this"
    and "deref b (p1 this) = Some (i1, e1)" and "deref b (p2 this) = Some (i2, e2)"
    and "intersectCircleCircle alg b (intersect1 this) (intersect2 this) = (n, c1, c2)"
    and "n \<noteq> 0"
  shows "update_CircleCircle alg self this b = Inr (real_board self this i1 i2 c1 c2 b)"
  using assms by (simp add: update_CircleCircle_def real_board_def Let_def)

lemma update_CircleLine_two:
  assumes "needsUpdate this"
    and "deref b (p1 this) = Some (i1, e1)" and "deref b (p2 this) = Some (i2, e2)"
    and "intersectCircleLine alg b (intersect1 this) (intersect2 this) = (2, c1, c2)"
  shows "update_CircleLine alg self this b = Inr (real_board self this i1 i2 c1 c2 b)"
  using assms by (simp add: update_CircleLine_def real_board_def Let_def)

lemma update_CircleLine_other:
  assumes "needsUpdate this"
    and "deref b (p1 this) = Some (i1, e1)" and "deref b (p2 this) = Some (i2, e2)"
    and "intersectCircleLine alg b (intersect1 this) (intersect2 this) = (n, c1, c2)"
    and "n \<noteq> 0" and "n \<noteq> 2"
  shows "update_CircleLine alg self this b = Inr (modify self (\<lambda>t. t\<lparr>needsUpdate := False\<rparr>) b)"
  using assms by (simp add: update_CircleLine_def Let_def)

lemma update_zero_unreal:
  assumes "lookup b self = Some this"
    and "methods this = CircleCircle \<or> methods this = CircleLine"
    and "needsUpdate this"
    and "deref b (p1 this) = Some (i1, e1)" and "deref b (p2 this) = Some (i2, e2)"
    and "fst (solve alg this b) = 0"
  shows "\<exists>b'. update alg self b = Inr b' \<and> map_option real_flag (lookup b' self) = Some False"
proof (cases "real_flag this")
  case True
  have "update alg self b = Inr (unreal_board self this i1 i2 (visible e1) (visible e2) b)"
    using assms(2)
  proof
    assume m: "methods this = CircleCircle"
    with assms(6) have "fst (intersectCircleCircle alg b (intersect1 this) (intersect2 this)) = 0"
      by (simp add: solve_def)
    from update_CircleCircle_zero [OF assms(3) True assms(4,5) this] show ?thesis
      by (simp add: update_def assms(1) m)
  next
    assume m: "methods this = CircleLine"
    with assms(6) have "fst (intersectCircleLine alg b (intersect1 this) (intersect2 this)) = 0"
      by (simp add: solve_def)
    from update_CircleLine_zero [OF assms(3) True assms(4,5) this] show ?thesis
      by (simp add: update_def assms(1) m)
  qed
  then show ?thesis using unreal_board_real [OF assms(1)] by simp
next
  case False
  have "update alg self b = Inr (modify self (\<lambda>t. t\<lparr>needsUpdate := False\<rparr>) b)"
    using assms(2)
  proof
    assume m: "methods this = CircleCircle"
    with assms(6) have "fst (intersectCircleCircle alg b (intersect1 this) (intersect2 this)) = 0"
      by (simp add: solve_def)
    then show ?thesis
      using False assms(3,4,5)
      by (cases "intersectCircleCircle alg b (intersect1 this) (intersect2 this)")
         (simp add: update_def assms(1) m update_CircleCircle_def Let_def)
  next
    assume m: "methods this = CircleLine"
    with assms(6) have "fst (intersectCircleLine alg b (intersect1 this) (intersect2 this)) = 0"
      by (simp add: solve_def)
    then show ?thesis
      using False assms(3,4,5)
      by (cases "intersectCircleLine alg b (intersect1 this) (intersect2 this)")
         (simp add: update_def assms(1) m update_CircleLine_def Let_def)
  qed
  then show ?thesis using False by (simp add: lookup_modify assms(1))
qed

text \<open>
  Claim C7 (idempotent no-op). \<^verbatim>\<open>update\<close> on a construct whose \<open>needsUpdate\<close> is not set
  returns the board it was given, whatever methods the construct carries, so no
  coordinate is written, nothing is hidden or shown and no field changes; a second call
  returns the same board again.
\<close>

theorem update_clean_is_noop:
  assumes "map_option needsUpdate (lookup b self) \<noteq> Some True"
  shows "update alg self b = Inr b
       \<and> (\<forall>b'. update alg self b = Inr b' \<longrightarrow> update alg self b' = Inr b)"
proof -
  have "update alg self b = Inr b"
  proof (cases "lookup b self")
    case None
    then show ?thesis by (simp add: update_def)
  next
    case (Some this)
    with assms have "\<not> needsUpdate this" by simp
    then show ?thesis
      by (cases "methods this")
         (simp_all add: update_def Some update_LineLine_def update_CircleCircle_def
            update_CircleLine_def)
  qed
  then show ?thesis by simp
qed

theorem update_clean_is_noop_witness:
  "map_option methods (lookup clean_scene ''X'') = Some CircleCircle
   \<and> update (reporting 0) ''X'' clean_scene = Inr clean_scene"
proof -
  have "map_option needsUpdate (lookup clean_scene ''X'') \<noteq> Some True"
    by (simp add: clean_scene_def scene_def plain_def lookup_def modify_def)
  from update_clean_is_noop [OF this, of "reporting 0"] show ?thesis
    by (simp add: clean_scene_def scene_def plain_def lookup_def modify_def)
qed

text \<open>
  Claim C6 (hiding keeps the recorded intent). When \<^verbatim>\<open>update\<close> of a real construct
  with circles finds no solution, it returns a board on which the construct is not
  real, the visible flag of every element (the owned points and all descendants among
  them) is what it was before the call, and every descendant carries the construct's
  own identifier in \<open>notExistingParents\<close>, the visible ones that are not intersections
  no longer displayed.
\<close>

theorem update_to_unreal_keeps_intent:
  assumes "lookup b self = Some this"
    and "methods this = CircleCircle \<or> methods this = CircleLine"
    and "needsUpdate this" and "real_flag this"
    and "deref b (p1 this) = Some (i1, e1)" and "deref b (p2 this) = Some (i2, e2)"
    and "fst (solve alg this b) = 0"
  shows "\<exists>b'. update alg self b = Inr b'
          \<and> map_option real_flag (lookup b' self) = Some False
          \<and> (\<forall>k. map_option visible (lookup b' k) = map_option visible (lookup b k))
          \<and> (\<forall>d e. d \<in> set (descendants this) \<and> lookup b d = Some e \<longrightarrow>
                (\<exists>e'. lookup b' d = Some e' \<and> ident this \<in> notExistingParents e'
                   \<and> rendered e' = (rendered e \<and> \<not> (visible e \<and> otype e \<noteq> OBJECT_TYPE_INTERSECTION))))"
proof -
  let ?b' = "unreal_board self this i1 i2 (visible e1) (visible e2) b"
  have u: "update alg self b = Inr ?b'"
    using assms(2)
  proof
    assume m: "methods this = CircleCircle"
    with assms(7) have "fst (intersectCircleCircle alg b (intersect1 this) (intersect2 this)) = 0"
      by (simp add: solve_def)
    from update_CircleCircle_zero [OF assms(3,4,5,6) this] show ?thesis
      by (simp add: update_def assms(1) m)
  next
    assume m: "methods this = CircleLine"
    with assms(7) have "fst (intersectCircleLine alg b (intersect1 this) (intersect2 this)) = 0"
      by (simp add: solve_def)
    from update_CircleLine_zero [OF assms(3,4,5,6) this] show ?thesis
      by (simp add: update_def assms(1) m)
  qed
  have l1: "lookup b i1 = Some e1" and l2: "lookup b i2 = Some e2"
    using deref_Some [OF assms(5)] deref_Some [OF assms(6)] by simp_all
  show ?thesis
  proof (intro exI [of _ ?b'] conjI allI impI)
    show "update alg self b = Inr ?b'" by (rule u)
    show "map_option real_flag (lookup ?b' self) = Some False"
      by (rule unreal_board_real [OF assms(1)])
    show "map_option visible (lookup ?b' k) = map_option visible (lookup b k)" for k
      by (rule unreal_board_visible [OF l1 l2])
    show "\<exists>e'. lookup ?b' d = Some e' \<and> ident this \<in> notExistingParents e'
            \<and> rendered e' = (rendered e \<and> \<not> (visible e \<and> otype e \<noteq> OBJECT_TYPE_INTERSECTION))"
      if "d \<in> set (descendants this) \<and> lookup b d = Some e" for d e
      using that unreal_board_descendant [OF assms(1), of d e] by simp
  qed
qed


theorem update_to_unreal_keeps_intent_witness:
  "map_option visible (lookup scene ''P1'') = Some True
   \<and> map_option visible (after (update (reporting 0) ''X'' scene) ''P1'') = Some True
   \<and> map_option rendered (after (update (reporting 0) ''X'' scene) ''P1'') = Some False
   \<and> map_option notExistingParents (after (update (reporting 0) ''X'' scene) ''P1'') = Some {''X''}
   \<and> map_option visible (after (update (reporting 0) ''X'' scene) ''H'') = Some False
   \<and> map_option real_flag (after (update (reporting 0) ''X'' scene) ''X'') = Some False"
proof -
  let ?x = "(plain ''X'' OBJECT_TYPE_INTERSECTION True)
                \<lparr>rendered := False, descendants := [''P1'', ''P2'', ''E'', ''H''],
                 real_flag := True, needsUpdate := True, intersect1 := Some ''c1'',
                 intersect2 := Some ''c2'', p1 := Some ''P1'', p2 := Some ''P2'',
                 methods := CircleCircle\<rparr>"
  let ?p1 = "(plain ''P1'' OBJECT_TYPE_POINT True)\<lparr>fixed := True, coords := Some [1, 4, 3]\<rparr>"
  let ?p2 = "(plain ''P2'' OBJECT_TYPE_POINT True)\<lparr>fixed := True, coords := Some [1, 4, -3]\<rparr>"
  have X: "lookup scene ''X'' = Some ?x"
    by (simp add: scene_def lookup_def)
  have m: "methods ?x = CircleCircle \<or> methods ?x = CircleLine" by simp
  have n: "needsUpdate ?x" by simp
  have r: "real_flag ?x" by simp
  have d1: "deref scene (p1 ?x) = Some (''P1'', ?p1)"
    by (simp add: deref_def scene_def lookup_def)
  have d2: "deref scene (p2 ?x) = Some (''P2'', ?p2)"
    by (simp add: deref_def scene_def lookup_def)
  have z: "fst (solve (reporting 0) ?x scene) = 0"
    by (simp add: solve_def reporting_def)
  from update_to_unreal_keeps_intent [OF X m n r d1 d2 z]
  show ?thesis
    by (simp add: scene_def plain_def lookup_def modify_def reporting_def update_def
          update_CircleCircle_def deref_def hideChild_closure_def descendants_of_def
          hideChild_descendant_def element_hideElement_def after_def Let_def)
qed

text \<open>
  Claim C2, amended. \<^verbatim>\<open>update\<close> of a construct with circles whose \<open>needsUpdate\<close> is set:
  a count of 0 leaves the construct not real; for two circles every count from 1 on, and
  for a circle and a line the count 2, leaves it real with the solver's coordinates in
  both owned points; for a circle and a line any other count changes nothing but
  \<open>needsUpdate\<close>.
\<close>

theorem update_reality_by_count:
  assumes "lookup b self = Some this"
    and "methods this = CircleCircle \<or> methods this = CircleLine"
    and "needsUpdate this"
    and "deref b (p1 this) = Some (i1, e1)" and "deref b (p2 this) = Some (i2, e2)"
    and "i1 \<noteq> i2"
    and "solve alg this b = (n, c1, c2)"
  shows "\<exists>b'. update alg self b = Inr b'
          \<and> (n = 0 \<longrightarrow> map_option real_flag (lookup b' self) = Some False)
          \<and> ((methods this = CircleCircle \<and> 1 \<le> n) \<or> (methods this = CircleLine \<and> n = 2) \<longrightarrow>
                map_option real_flag (lookup b' self) = Some True
                \<and> map_option coords (lookup b' i1) = Some c1
                \<and> map_option coords (lookup b' i2) = Some c2)
          \<and> (methods this = CircleLine \<and> n \<noteq> 0 \<and> n \<noteq> 2 \<longrightarrow>
                b' = modify self (\<lambda>t. t\<lparr>needsUpdate := False\<rparr>) b)"
proof -
  have l1: "lookup b i1 = Some e1" and l2: "lookup b i2 = Some e2"
    using deref_Some [OF assms(4)] deref_Some [OF assms(5)] by simp_all
  consider (zero) "n = 0"
    | (real) "(methods this = CircleCircle \<and> 1 \<le> n) \<or> (methods this = CircleLine \<and> n = 2)"
    | (other) "methods this = CircleLine \<and> n \<noteq> 0 \<and> n \<noteq> 2"
    using assms(2) by (cases "n = 0") auto
  then show ?thesis
  proof cases
    case zero
    with assms(7) have "fst (solve alg this b) = 0" by simp
    from update_zero_unreal [OF assms(1,2,3,4,5) this] zero show ?thesis by auto
  next
    case real
    have "update alg self b = Inr (real_board self this i1 i2 c1 c2 b)"
      using real
    proof
      assume m: "methods this = CircleCircle \<and> 1 \<le> n"
      with assms(7) have "intersectCircleCircle alg b (intersect1 this) (intersect2 this) = (n, c1, c2)"
        by (simp add: solve_def)
      from update_CircleCircle_nonzero [OF assms(3,4,5) this] m show ?thesis
        by (simp add: update_def assms(1))
    next
      assume m: "methods this = CircleLine \<and> n = 2"
      with assms(7) have "intersectCircleLine alg b (intersect1 this) (intersect2 this) = (2, c1, c2)"
        by (simp add: solve_def)
      from update_CircleLine_two [OF assms(3,4,5) this] m show ?thesis
        by (simp add: update_def assms(1))
    qed
    with real real_board_real [OF assms(1)] real_board_coords [OF l1 l2 assms(6)]
    show ?thesis by auto
  next
    case other
    with assms(7) have "intersectCircleLine alg b (intersect1 this) (intersect2 this) = (n, c1, c2)"
      by (simp add: solve_def)
    from update_CircleLine_other [OF assms(3,4,5) this] other
    have "update alg self b = Inr (modify self (\<lambda>t. t\<lparr>needsUpdate := False\<rparr>) b)"
      by (simp add: update_def assms(1))
    with other show ?thesis by auto
  qed
qed


theorem update_reality_by_count_witness:
  "map_option real_flag (after (update (reporting 2) ''X'' scene) ''X'') = Some True
   \<and> map_option coords (lookup scene ''P1'') = Some (Some [1, 4, 3])
   \<and> map_option coords (after (update (reporting 2) ''X'' scene) ''P1'') = Some (Some [1, 3, 4])
   \<and> map_option coords (after (update (reporting 2) ''X'' scene) ''P2'') = Some (Some [1, 3, -4])"
proof -
  let ?x = "(plain ''X'' OBJECT_TYPE_INTERSECTION True)
                \<lparr>rendered := False, descendants := [''P1'', ''P2'', ''E'', ''H''],
                 real_flag := True, needsUpdate := True, intersect1 := Some ''c1'',
                 intersect2 := Some ''c2'', p1 := Some ''P1'', p2 := Some ''P2'',
                 methods := CircleCircle\<rparr>"
  let ?p1 = "(plain ''P1'' OBJECT_TYPE_POINT True)\<lparr>fixed := True, coords := Some [1, 4, 3]\<rparr>"
  let ?p2 = "(plain ''P2'' OBJECT_TYPE_POINT True)\<lparr>fixed := True, coords := Some [1, 4, -3]\<rparr>"
  have X: "lookup scene ''X'' = Some ?x"
    by (simp add: scene_def lookup_def)
  have m: "methods ?x = CircleCircle \<or> methods ?x = CircleLine" by simp
  have n: "needsUpdate ?x" by simp
  have d1: "deref scene (p1 ?x) = Some (''P1'', ?p1)"
    by (simp add: deref_def scene_def lookup_def)
  have d2: "deref scene (p2 ?x) = Some (''P2'', ?p2)"
    by (simp add: deref_def scene_def lookup_def)
  have ne: "''P1'' \<noteq> ''P2''" by simp
  have s: "solve (reporting 2) ?x scene = (2, Some [1, 3, 4], Some [1, 3, -4])"
    by (simp add: solve_def reporting_def)
  from update_reality_by_count [OF X m n d1 d2 ne s]
  obtain b' where u: "update (reporting 2) ''X'' scene = Inr b'"
    and r: "map_option real_flag (lookup b' ''X'') = Some True"
    and c1: "map_option coords (lookup b' ''P1'') = Some (Some [1, 3, 4])"
    and c2: "map_option coords (lookup b' ''P2'') = Some (Some [1, 3, -4])"
    by auto
  have "map_option coords (lookup scene ''P1'') = Some (Some [1, 4, 3])"
    by (simp add: scene_def lookup_def plain_def)
  with u r c1 c2 show ?thesis by (simp add: after_def)
qed

theorem update_tangent_counterexample:
  "map_option methods (lookup tangent_scene ''Y'') = Some CircleLine
   \<and> map_option needsUpdate (lookup tangent_scene ''Y'') = Some True
   \<and> fst (intersectCircleLine (reporting 1) tangent_scene (Some ''c1'') (Some ''l'')) = 1
   \<and> map_option real_flag (after (update (reporting 1) ''Y'' tangent_scene) ''Y'') = Some False
   \<and> map_option coords (after (update (reporting 1) ''Y'' tangent_scene) ''Q1'')
       = Some (Some [1, 0, 5])"
  by (simp add: tangent_scene_def scene_def plain_def lookup_def modify_def reporting_def
        update_def update_CircleLine_def deref_def after_def Let_def)

section \<open>Properties of the constructor and of removal\<close>

lemmas ctor_defs = Intersection_def new_Intersection_def GetReferenceFromParameter_def
  type_of_def parameter_type_def Intersection_LineLine_def Intersection_CircleCircle_def
  Intersection_CircleLine_def two_points_def Point_def addChild_def addIntersection_def
  register_def modify_def lookup_def plain_def reporting_def
  element_showElement_def Let_def construct_of_def point_of_def


lemma two_points_fields:
  assumes "two_points Board this InterId1 InterId2 InterName1 InterName2 = (b4, this1)"
  shows "this1 = this\<lparr>descendants := descendants this @ [InterId1, InterId2],
                       p1 := Some InterId1, p2 := Some InterId2\<rparr>"
  using assms by (auto simp: two_points_def addChild_def Let_def)


lemma Intersection_CircleLine_fields:
  assumes "Intersection_CircleLine alg Board this InterId1 InterId2 InterName1 InterName2 = (b, t)"
  shows "methods t = CircleLine \<and> p t = p this \<and> p1 t = Some InterId1 \<and> p2 t = Some InterId2"
proof -
  obtain b4 this1 where tp: "two_points Board this InterId1 InterId2 InterName1 InterName2 = (b4, this1)"
    by (cases "two_points Board this InterId1 InterId2 InterName1 InterName2")
  have f1: "p this1 = p this \<and> p1 this1 = Some InterId1 \<and> p2 this1 = Some InterId2"
    using two_points_fields [OF tp] by simp
  show ?thesis
    using assms f1 unfolding Intersection_CircleLine_def tp Let_def
    by (auto split: prod.splits if_splits)
qed




lemma Intersection_no_parents:
  assumes "GetReferenceFromParameter Board Intersect1 = None"
    and "GetReferenceFromParameter Board Intersect2 = None"
  shows "Intersection alg Board Id' Intersect1 Intersect2 InterId1 InterId2 InterName1 InterName2
           = Inr (Board, new_Intersection Board Id' Intersect1 Intersect2)"
  using assms by (simp add: Intersection_def new_Intersection_def Let_def)

lemma GetReferenceFromParameter_Some:
  "GetReferenceFromParameter Board r = Some i \<Longrightarrow> \<exists>e. lookup Board i = Some e"
  by (auto simp: GetReferenceFromParameter_def split: parameter.splits option.splits)


lemma parameter_type_resolved:
  assumes "GetReferenceFromParameter Board r = Some i" and "lookup Board i = Some e"
  shows "parameter_type Board r = None \<or> parameter_type Board r = Some (otype e)"
  using assms
  by (cases r) (auto simp: parameter_type_def GetReferenceFromParameter_def split: option.splits)

lemma type_of_resolved:
  assumes "GetReferenceFromParameter Board r = Some i" and "lookup Board i = Some e"
  shows "type_of Board (GetReferenceFromParameter Board r) = Some (otype e)"
  using assms by (simp add: type_of_def)

lemma intersect_new_Intersection:
  "intersect1 (new_Intersection Board Id' Intersect1 Intersect2) = GetReferenceFromParameter Board Intersect1"
  "intersect2 (new_Intersection Board Id' Intersect1 Intersect2) = GetReferenceFromParameter Board Intersect2"
  by (simp_all add: new_Intersection_def)

lemma two_points_lookup:
  assumes "two_points Board this InterId1 InterId2 InterName1 InterName2 = (b4, this1)"
    and "InterId1 \<noteq> InterId2"
  shows "map_option (\<lambda>e. (coords e, rendered e, visible e)) (lookup b4 InterId1)
           = Some (Some [0, 0], False, False)
       \<and> map_option (\<lambda>e. (coords e, rendered e, visible e)) (lookup b4 InterId2)
           = Some (Some [0, 0], False, False)"
  using assms
  by (auto simp: two_points_def Point_def Let_def lookup_modify lookup_register)

lemma Intersection_circle_branch:
  assumes "lookup Board i1 = Some e1" and "lookup Board i2 = Some e2"
    and "otype e1 = OBJECT_TYPE_CIRCLE \<or> otype e1 = OBJECT_TYPE_ARC"
    and "otype e2 = OBJECT_TYPE_CIRCLE \<or> otype e2 = OBJECT_TYPE_ARC"
    and "Intersection_CircleCircle alg Board (new_Intersection Board Id' (Element i1) (Element i2))
           InterId1 InterId2 InterName1 InterName2 = (b, t)"
  shows "Intersection alg Board Id' (Element i1) (Element i2) InterId1 InterId2 InterName1 InterName2
           = Inr (addIntersection t b, t)"
proof -
  let ?new = "new_Intersection Board Id' (Element i1) (Element i2)"
  have g1: "GetReferenceFromParameter Board (Element i1) = Some i1"
    and g2: "GetReferenceFromParameter Board (Element i2) = Some i2"
    using assms(1,2) by (simp_all add: GetReferenceFromParameter_def)
  have t1: "type_of Board (intersect1 ?new) = Some (otype e1)"
    using type_of_resolved [OF g1 assms(1)] by (simp add: intersect_new_Intersection)
  have t2: "type_of Board (intersect2 ?new) = Some (otype e2)"
    using type_of_resolved [OF g2 assms(2)] by (simp add: intersect_new_Intersection)
  have r1: "parameter_type Board (Element i1) = Some (otype e1)"
    and r2: "parameter_type Board (Element i2) = Some (otype e2)"
    using assms(1,2) by (simp_all add: parameter_type_def)
  have some: "\<not> (intersect1 ?new = None \<and> intersect2 ?new = None)"
    by (simp add: intersect_new_Intersection g1)
  show ?thesis
    using assms(3,4)
    unfolding Intersection_def Let_def t1 t2 r1 r2 assms(5)
    by (auto simp: some)
qed

lemma Intersection_CircleCircle_real_iff_one:
  assumes "lookup Board i1 = Some e1" and "lookup Board i2 = Some e2"
    and "otype e1 = OBJECT_TYPE_CIRCLE \<or> otype e1 = OBJECT_TYPE_ARC"
    and "otype e2 = OBJECT_TYPE_CIRCLE \<or> otype e2 = OBJECT_TYPE_ARC"
    and "InterId1 \<noteq> InterId2" and "Id' \<noteq> InterId1" and "Id' \<noteq> InterId2"
    and "intersectCircleCircle alg
           (fst (two_points Board (new_Intersection Board Id' (Element i1) (Element i2))
                   InterId1 InterId2 InterName1 InterName2))
           (Some i1) (Some i2) = (n, c1, c2)"
  shows "map_option real_flag
           (construct_of (Intersection alg Board Id' (Element i1) (Element i2)
              InterId1 InterId2 InterName1 InterName2)) = Some (n = 1)
       \<and> map_option (\<lambda>e. (rendered e, visible e, coords e))
           (point_of (Intersection alg Board Id' (Element i1) (Element i2)
              InterId1 InterId2 InterName1 InterName2) InterId1)
           = Some (n = 1, n = 1, if n = 1 then c1 else Some [0, 0])
       \<and> map_option (\<lambda>e. (rendered e, visible e, coords e))
           (point_of (Intersection alg Board Id' (Element i1) (Element i2)
              InterId1 InterId2 InterName1 InterName2) InterId2)
           = Some (n = 1, n = 1, if n = 1 then c2 else Some [0, 0])"
proof -
  let ?new = "new_Intersection Board Id' (Element i1) (Element i2)"
  obtain b4 this1 where tp: "two_points Board ?new InterId1 InterId2 InterName1 InterName2 = (b4, this1)"
    by (cases "two_points Board ?new InterId1 InterId2 InterName1 InterName2")
  have this1: "this1 = ?new\<lparr>descendants := descendants ?new @ [InterId1, InterId2],
                       p1 := Some InterId1, p2 := Some InterId2\<rparr>"
    by (rule two_points_fields [OF tp])
  have i: "intersect1 this1 = Some i1" "intersect2 this1 = Some i2" "ident this1 = Id'"
    using assms(1,2)
    by (simp_all add: this1 new_Intersection_def GetReferenceFromParameter_def)
  have sol: "intersectCircleCircle alg b4 (intersect1 this1) (intersect2 this1) = (n, c1, c2)"
    using assms(8) by (simp add: tp i)
  define b where "b = (if n = 1
      then modify InterId2 (\<lambda>e. element_showElement (e\<lparr>coords := c2\<rparr>))
             (modify InterId1 (\<lambda>e. element_showElement (e\<lparr>coords := c1\<rparr>)) b4)
      else b4)"
  define t where "t = this1\<lparr>real_flag := (n = 1), methods := CircleCircle\<rparr>"
  have cc: "Intersection_CircleCircle alg Board ?new InterId1 InterId2 InterName1 InterName2 = (b, t)"
    unfolding Intersection_CircleCircle_def tp
    by (simp add: sol b_def t_def Let_def)
  have r: "Intersection alg Board Id' (Element i1) (Element i2) InterId1 InterId2 InterName1 InterName2
           = Inr (addIntersection t b, t)"
    by (rule Intersection_circle_branch [OF assms(1,2,3,4) cc])
  have idt: "ident t = Id'" by (simp add: t_def i)
  have pts: "lookup (addIntersection t b) k = lookup b k" if "k \<noteq> Id'" for k
    using that by (simp add: addIntersection_def lookup_register idt)
  have real: "real_flag t = (n = 1)" by (simp add: t_def)
  have q1: "map_option (\<lambda>e. (rendered e, visible e, coords e)) (lookup b InterId1)
              = Some (n = 1, n = 1, if n = 1 then c1 else Some [0, 0])"
    using two_points_lookup [OF tp assms(5)] assms(5)
    by (cases "lookup b4 InterId1")
       (auto simp: b_def lookup_modify element_showElement_def)
  have q2: "map_option (\<lambda>e. (rendered e, visible e, coords e)) (lookup b InterId2)
              = Some (n = 1, n = 1, if n = 1 then c2 else Some [0, 0])"
    using two_points_lookup [OF tp assms(5)] assms(5)
    by (cases "lookup b4 InterId2")
       (auto simp: b_def lookup_modify element_showElement_def)
  show ?thesis
    using assms(6,7) real q1 q2
    by (simp add: r construct_of_def point_of_def pts)
qed


text \<open>
  Claim C3. Two circles handed to the constructor as element objects, with a solver that
  reports the count 2 and two coordinates: the constructor leaves the construct not
  real and both owned points hidden at the coordinates (0, 0), because it takes the
  solution only when the count equals 1. The first \<^verbatim>\<open>update()\<close> of the same construct
  with the same answer of the solver makes it real and writes the coordinates.
\<close>

theorem Intersection_CircleCircle_count_two:
  "map_option otype (lookup parents ''c1'') = Some OBJECT_TYPE_CIRCLE
   \<and> map_option otype (lookup parents ''c2'') = Some OBJECT_TYPE_CIRCLE
   \<and> intersectCircleCircle (reporting 2)
        (fst (two_points parents (new_Intersection parents ''X'' (Element ''c1'') (Element ''c2''))
                ''P1'' ''P2'' ''P1'' ''P2''))
        (Some ''c1'') (Some ''c2'') = (2, Some [1, 3, 4], Some [1, 3, -4])
   \<and> map_option real_flag
       (construct_of (Intersection (reporting 2) parents ''X'' (Element ''c1'') (Element ''c2'')
          ''P1'' ''P2'' ''P1'' ''P2'')) = Some False
   \<and> map_option rendered
       (point_of (Intersection (reporting 2) parents ''X'' (Element ''c1'') (Element ''c2'')
          ''P1'' ''P2'' ''P1'' ''P2'') ''P1'') = Some False
   \<and> map_option coords
       (point_of (Intersection (reporting 2) parents ''X'' (Element ''c1'') (Element ''c2'')
          ''P1'' ''P2'' ''P1'' ''P2'') ''P1'') = Some (Some [0, 0])
   \<and> map_option rendered
       (point_of (Intersection (reporting 2) parents ''X'' (Element ''c1'') (Element ''c2'')
          ''P1'' ''P2'' ''P1'' ''P2'') ''P2'') = Some False
   \<and> map_option coords
       (point_of (Intersection (reporting 2) parents ''X'' (Element ''c1'') (Element ''c2'')
          ''P1'' ''P2'' ''P1'' ''P2'') ''P2'') = Some (Some [0, 0])
   \<and> map_option real_flag
       (after (first_update (reporting 2) ''X''
          (Intersection (reporting 2) parents ''X'' (Element ''c1'') (Element ''c2'')
             ''P1'' ''P2'' ''P1'' ''P2'')) ''X'') = Some True
   \<and> map_option coords
       (after (first_update (reporting 2) ''X''
          (Intersection (reporting 2) parents ''X'' (Element ''c1'') (Element ''c2'')
             ''P1'' ''P2'' ''P1'' ''P2'')) ''P1'') = Some (Some [1, 3, 4])"
  by (simp add: ctor_defs parents_def first_update_def after_def update_def
        update_CircleCircle_def deref_def showChild_closure_def showChild_object_def)

text \<open>
  Claim C4. The constructor returns early only when both parents fail to resolve. When
  exactly one of them fails to resolve, the type test that follows reads \<^verbatim>\<open>type\<close> of
  \<^verbatim>\<open>undefined\<close> and the constructor throws.
\<close>

theorem Intersection_one_absent_parent:
  assumes "(GetReferenceFromParameter Board Intersect1 = None)
             \<noteq> (GetReferenceFromParameter Board Intersect2 = None)"
  shows "Intersection alg Board Id' Intersect1 Intersect2 InterId1 InterId2 InterName1 InterName2
           = Inl TypeError"
  using assms
  by (auto simp: Intersection_def new_Intersection_def type_of_def Let_def
        split: option.splits)

theorem Intersection_one_absent_parent_witness:
  "GetReferenceFromParameter parents (Name ''nowhere'') = None
   \<and> GetReferenceFromParameter parents (Element ''l'') = Some ''l''
   \<and> Intersection (reporting 2) parents ''X'' (Name ''nowhere'') (Element ''l'')
        ''P1'' ''P2'' ''P1'' ''P2'' = Inl TypeError"
proof -
  have a: "GetReferenceFromParameter parents (Name ''nowhere'') = None"
    by (simp add: GetReferenceFromParameter_def parents_def lookup_def)
  have b: "GetReferenceFromParameter parents (Element ''l'') = Some ''l''"
    by (simp add: GetReferenceFromParameter_def parents_def lookup_def)
  have "(GetReferenceFromParameter parents (Name ''nowhere'') = None)
          \<noteq> (GetReferenceFromParameter parents (Element ''l'') = None)"
    by (simp add: a b)
  from Intersection_one_absent_parent [OF this] a b show ?thesis by simp
qed

text \<open>
  Claim C8. For two resolved parents of which at least one is neither a line, an arrow,
  a circle nor an arc, the constructor does not reject the pair: it takes its last
  branch, allocates both points and installs the methods of a circle and a line.
\<close>

theorem Intersection_unsupported_pair_proceeds:
  assumes "GetReferenceFromParameter Board Intersect1 = Some i1" and "lookup Board i1 = Some e1"
    and "GetReferenceFromParameter Board Intersect2 = Some i2" and "lookup Board i2 = Some e2"
    and "otype e1 \<notin> {OBJECT_TYPE_LINE, OBJECT_TYPE_ARROW, OBJECT_TYPE_CIRCLE, OBJECT_TYPE_ARC}
       \<or> otype e2 \<notin> {OBJECT_TYPE_LINE, OBJECT_TYPE_ARROW, OBJECT_TYPE_CIRCLE, OBJECT_TYPE_ARC}"
  shows "map_option (\<lambda>this. (methods this, p1 this, p2 this))
           (construct_of (Intersection alg Board Id' Intersect1 Intersect2
              InterId1 InterId2 InterName1 InterName2))
         = Some (CircleLine, Some InterId1, Some InterId2)"
proof -
  let ?new = "new_Intersection Board Id' Intersect1 Intersect2"
  obtain b0 t where cl:
    "Intersection_CircleLine alg Board ?new InterId1 InterId2 InterName1 InterName2 = (b0, t)"
    by (cases "Intersection_CircleLine alg Board ?new InterId1 InterId2 InterName1 InterName2")
  have t1: "type_of Board (intersect1 ?new) = Some (otype e1)"
    using type_of_resolved [OF assms(1,2)] by (simp add: intersect_new_Intersection)
  have t2: "type_of Board (intersect2 ?new) = Some (otype e2)"
    using type_of_resolved [OF assms(3,4)] by (simp add: intersect_new_Intersection)
  have some: "\<not> (intersect1 ?new = None \<and> intersect2 ?new = None)"
    by (simp add: intersect_new_Intersection assms(1))
  have "Intersection alg Board Id' Intersect1 Intersect2 InterId1 InterId2 InterName1 InterName2
          = Inr (addIntersection t b0, t)"
    using assms(5) parameter_type_resolved [OF assms(1,2)] parameter_type_resolved [OF assms(3,4)]
    unfolding Intersection_def Let_def t1 t2 cl
    by (auto simp: some)
  then show ?thesis
    using Intersection_CircleLine_fields [OF cl] by (simp add: construct_of_def)
qed


theorem Intersection_unsupported_pair_proceeds_witness:
  "map_option otype (lookup parents ''A'') = Some OBJECT_TYPE_POINT
   \<and> map_option otype (lookup parents ''T'') = Some OBJECT_TYPE_TEXT
   \<and> map_option (\<lambda>this. (methods this, p1 this, p2 this))
       (construct_of (Intersection (reporting 0) parents ''X'' (Element ''A'') (Element ''T'')
          ''P1'' ''P2'' ''P1'' ''P2''))
       = Some (CircleLine, Some ''P1'', Some ''P2'')"
proof -
  have g1: "GetReferenceFromParameter parents (Element ''A'') = Some ''A''"
    and g2: "GetReferenceFromParameter parents (Element ''T'') = Some ''T''"
    by (simp_all add: GetReferenceFromParameter_def parents_def lookup_def)
  have l1: "lookup parents ''A'' = Some (plain ''A'' OBJECT_TYPE_POINT True)"
    and l2: "lookup parents ''T'' = Some (plain ''T'' OBJECT_TYPE_TEXT True)"
    by (simp_all add: parents_def lookup_def)
  have u: "otype (plain ''A'' OBJECT_TYPE_POINT True)
             \<notin> {OBJECT_TYPE_LINE, OBJECT_TYPE_ARROW, OBJECT_TYPE_CIRCLE, OBJECT_TYPE_ARC}
         \<or> otype (plain ''T'' OBJECT_TYPE_TEXT True)
             \<notin> {OBJECT_TYPE_LINE, OBJECT_TYPE_ARROW, OBJECT_TYPE_CIRCLE, OBJECT_TYPE_ARC}"
    by (simp add: plain_def)
  from Intersection_unsupported_pair_proceeds [OF g1 l1 g2 l2 u] l1 l2
  show ?thesis by (simp add: plain_def)
qed




end
